theory Spec2Isabelle
  imports Complex_Main "HOL-Library.Multiset"
begin

section \<open>Data model (the types module)\<close>

text \<open>
  A TypeScript \<open>number\<close> is modelled as an exact real number, as the specification's data
  model does (\<open>x: real\<close>). Rounding, overflow, \<open>NaN\<close> and the infinities of binary64 are
  therefore not part of the values. The two operations of the source whose binary64 result
  is not a real number (a division by zero, the square root of a negative number) are
  written out as a separate outcome, so that a theorem saying that a call returns also
  says that no such operation was reached.
\<close>

record DataPoint =
  id' :: string
  area :: real
  price :: real

record RegressionResult =
  m :: real
  b :: real
  r2 :: real
  rmse :: real
  equation :: string

text \<open>
  How a call can end without a result: \<open>Error msg\<close> is \<open>throw new Error(msg)\<close>,
  \<open>RangeError\<close> is what \<open>toFixed\<close> throws for a digit count outside 0..100, and
  \<open>NotFinite\<close> stands for an arithmetic result that is \<open>NaN\<close> or \<open>\<plusminus>Infinity\<close> in
  JavaScript (which does not throw there, but leaves the real numbers).
\<close>

datatype exn = Error string | RangeError | NotFinite

definition InsufficientData :: exn where
  "InsufficientData = Error ''Insufficient data points''"

definition andThen :: "exn + 'a \<Rightarrow> ('a \<Rightarrow> exn + 'c) \<Rightarrow> exn + 'c" where
  "andThen r f = (case r of Inl e \<Rightarrow> Inl e | Inr v \<Rightarrow> f v)"

definition divide_number :: "real \<Rightarrow> real \<Rightarrow> exn + real" where
  "divide_number x y = (if y = 0 then Inl NotFinite else Inr (x / y))"

definition Math_sqrt :: "real \<Rightarrow> exn + real" where
  "Math_sqrt x = (if x < 0 then Inl NotFinite else Inr (sqrt x))"

definition Math_pow :: "real \<Rightarrow> nat \<Rightarrow> real" where
  "Math_pow x k = x ^ k"

section \<open>Number.prototype.toFixed\<close>

text \<open>
  The equation text is built with the built-in \<open>toFixed\<close>. Its definition follows the
  steps of the ECMAScript standard (Number.prototype.toFixed), over the exact value of the
  number.
\<close>

definition digitChar :: "nat \<Rightarrow> char" where
  "digitChar d = ''0123456789'' ! d"

text \<open>The digits of the decimal representation of \<open>n\<close>, with no leading zero; \<open>''0''\<close> for 0.\<close>

function decimalDigits :: "nat \<Rightarrow> string" where
  "decimalDigits n =
     (if n < 10 then [digitChar n] else decimalDigits (n div 10) @ [digitChar (n mod 10)])"
  by pat_completeness auto
termination
  by (relation "measure (\<lambda>n. n)") auto

declare decimalDigits.simps [simp del]

text \<open>
  From \<open>10^21\<close> on, \<open>toFixed\<close> hands over to Number::toString, which writes a number of
  that size in exponent notation: with \<open>n\<close> the number of integer digits and \<open>s\<close> the
  shortest digit string, \<open>s\<close> itself or its first digit, a point and the rest, then \<open>e+\<close>
  and \<open>n - 1\<close>. Every binary64 number of that size is an integer; the model takes the
  integer's own digits without the trailing zeros for \<open>s\<close> (the standard takes the
  shortest string that rounds to the same binary64 number).
\<close>

definition stripZeros :: "string \<Rightarrow> string" where
  "stripZeros ds = rev (dropWhile (\<lambda>c. c = CHR ''0'') (rev ds))"

definition exponentNotation :: "nat \<Rightarrow> string" where
  "exponentNotation v =
     (let ds = decimalDigits v;
          n = length ds;
          s = stripZeros ds
      in (if length s = 1 then s else hd s # ''.'' @ tl s) @ ''e+'' @ decimalDigits (n - 1))"

definition toFixedText :: "real \<Rightarrow> nat \<Rightarrow> string" where
  "toFixedText x0 f =
     (let s = (if x0 < 0 then ''-'' else []);
          x = (if x0 < 0 then - x0 else x0)
      in if x \<ge> 10 ^ 21 then s @ exponentNotation (nat \<lfloor>x\<rfloor>)
         else
           let n = nat \<lfloor>x * 10 ^ f + 1 / 2\<rfloor>;
               ds = decimalDigits n
           in if f \<noteq> 0 then
                let k = length ds;
                    ds' = (if k \<le> f then replicate (f + 1 - k) (CHR ''0'') @ ds else ds);
                    k' = (if k \<le> f then f + 1 else k)
                in s @ take (k' - f) ds' @ ''.'' @ drop (k' - f) ds'
              else s @ ds)"

definition toFixed :: "real \<Rightarrow> nat \<Rightarrow> exn + string" where
  "toFixed x f = (if f > 100 then Inl RangeError else Inr (toFixedText x f))"

section \<open>The regression module\<close>

subsection \<open>calculateRegression\<close>

text \<open>The four running sums of the first \<open>forEach\<close>, updated point by point in input order.\<close>

record totals =
  sumX :: real
  sumY :: real
  sumXY :: real
  sumXX :: real

definition addPoint :: "totals \<Rightarrow> DataPoint \<Rightarrow> totals" where
  "addPoint s p =
     \<lparr>sumX = sumX s + area p,
      sumY = sumY s + price p,
      sumXY = sumXY s + area p * price p,
      sumXX = sumXX s + area p * area p\<rparr>"

definition runningSums :: "DataPoint list \<Rightarrow> totals" where
  "runningSums data = foldl addPoint \<lparr>sumX = 0, sumY = 0, sumXY = 0, sumXX = 0\<rparr> data"

text \<open>The two sums of squares of the second \<open>forEach\<close>.\<close>

record squares =
  ssTot :: real
  ssRes :: real

definition addSquares :: "real \<Rightarrow> real \<Rightarrow> real \<Rightarrow> squares \<Rightarrow> DataPoint \<Rightarrow> squares" where
  "addSquares = (\<lambda>m b meanY q p.
     let predictedY = m * area p + b
     in \<lparr>ssTot = ssTot q + Math_pow (price p - meanY) 2,
         ssRes = ssRes q + Math_pow (price p - predictedY) 2\<rparr>)"

definition runningSquares :: "real \<Rightarrow> real \<Rightarrow> real \<Rightarrow> DataPoint list \<Rightarrow> squares" where
  "runningSquares = (\<lambda>m b meanY data.
     foldl (addSquares m b meanY) \<lparr>ssTot = 0, ssRes = 0\<rparr> data)"

text \<open>The initialiser of \<open>r2\<close>: \<open>ssTot === 0 ? 0 : 1 - ssRes / ssTot\<close>.\<close>

definition r2Of :: "real \<Rightarrow> real \<Rightarrow> exn + real" where
  "r2Of = (\<lambda>ssTot ssRes.
     if ssTot = 0 then Inr 0
     else andThen (divide_number ssRes ssTot) (\<lambda>quotient. Inr (1 - quotient)))"

definition calculateRegression :: "DataPoint list \<Rightarrow> exn + RegressionResult" where
  "calculateRegression data =
     (let n = length data
      in if n < 2 then Inl (Error ''Insufficient data points'')
         else
           let s = runningSums data;
               denominator = real n * sumXX s - sumX s * sumX s
           in if denominator = 0 then
                Inr \<lparr>m = 0, b = 0, r2 = 0, rmse = 0, equation = ''Undefined (Vertical Line)''\<rparr>
              else
                andThen (divide_number (real n * sumXY s - sumX s * sumY s) denominator) (\<lambda>m.
                andThen (divide_number (sumY s - m * sumX s) (real n)) (\<lambda>b.
                andThen (divide_number (sumY s) (real n)) (\<lambda>meanY.
                let q = runningSquares m b meanY data
                in andThen (r2Of (ssTot q) (ssRes q)) (\<lambda>r2.
                   andThen (divide_number (ssRes q) (real n)) (\<lambda>mse.
                   andThen (Math_sqrt mse) (\<lambda>rmse.
                   andThen (toFixed m 4) (\<lambda>slopeText.
                   andThen (toFixed b 2) (\<lambda>interceptText.
                   Inr \<lparr>m = m, b = b, r2 = r2, rmse = rmse,
                        equation = ''y = '' @ slopeText @ ''x + '' @ interceptText\<rparr>)))))))))"

subsection \<open>predictPrice\<close>


section \<open>The fit in the words of the specification\<close>

text \<open>
  The closed-form least-squares fit as the specification writes it, with sums over the
  observations, for comparison with the running sums of the code.
\<close>

definition sigma :: "(DataPoint \<Rightarrow> real) \<Rightarrow> DataPoint list \<Rightarrow> real" where
  "sigma f data = sum_list (map f data)"

definition olsDenominator :: "DataPoint list \<Rightarrow> real" where
  "olsDenominator data =
     real (length data) * sigma (\<lambda>p. area p * area p) data - (sigma area data)\<^sup>2"

definition olsSlope :: "DataPoint list \<Rightarrow> real" where
  "olsSlope data =
     (real (length data) * sigma (\<lambda>p. area p * price p) data - sigma area data * sigma price data)
       / olsDenominator data"

definition olsIntercept :: "DataPoint list \<Rightarrow> real" where
  "olsIntercept data =
     (sigma price data - olsSlope data * sigma area data) / real (length data)"

definition olsMeanY :: "DataPoint list \<Rightarrow> real" where
  "olsMeanY data = sigma price data / real (length data)"

definition olsSsTot :: "DataPoint list \<Rightarrow> real" where
  "olsSsTot data = sigma (\<lambda>p. (price p - olsMeanY data)\<^sup>2) data"

definition olsSsRes :: "DataPoint list \<Rightarrow> real" where
  "olsSsRes data =
     sigma (\<lambda>p. (price p - (olsSlope data * area p + olsIntercept data))\<^sup>2) data"

definition olsR2 :: "DataPoint list \<Rightarrow> real" where
  "olsR2 data = (if olsSsTot data = 0 then 0 else 1 - olsSsRes data / olsSsTot data)"

definition olsRmse :: "DataPoint list \<Rightarrow> real" where
  "olsRmse data = sqrt (olsSsRes data / real (length data))"

definition sameX :: "DataPoint list \<Rightarrow> bool" where
  "sameX data = (\<forall>p \<in> set data. \<forall>q \<in> set data. area p = area q)"


definition olsFit :: "DataPoint list \<Rightarrow> RegressionResult" where
  "olsFit data =
     \<lparr>m = olsSlope data, b = olsIntercept data, r2 = olsR2 data, rmse = olsRmse data,
      equation = ''y = '' @ toFixedText (olsSlope data) 4 @ ''x + ''
                   @ toFixedText (olsIntercept data) 2\<rparr>"

definition verticalLine :: RegressionResult where
  "verticalLine =
     \<lparr>m = 0, b = 0, r2 = 0, rmse = 0, equation = ''Undefined (Vertical Line)''\<rparr>"

section \<open>Fixed-point text\<close>

text \<open>
  What it means for a text to be a number in fixed-point notation with \<open>d\<close> decimal
  places: an optional minus sign, at least one digit, a point and exactly \<open>d\<close> digits;
  and the number that such a text denotes.
\<close>

definition isDigit :: "char \<Rightarrow> bool" where
  "isDigit c = (c \<in> set ''0123456789'')"

definition unsignedText :: "string \<Rightarrow> string" where
  "unsignedText t = (case t of [] \<Rightarrow> [] | c # r \<Rightarrow> if c = CHR ''-'' then r else t)"

definition fixedPointText :: "nat \<Rightarrow> string \<Rightarrow> bool" where
  "fixedPointText d t =
     (let u = unsignedText t;
          ip = takeWhile isDigit u;
          rest = dropWhile isDigit u
      in ip \<noteq> [] \<and> rest \<noteq> [] \<and> hd rest = CHR ''.''
         \<and> length (tl rest) = d \<and> list_all isDigit (tl rest))"

definition digitValue :: "char \<Rightarrow> nat" where
  "digitValue c = of_char c - 48"

definition digitsValue :: "string \<Rightarrow> nat" where
  "digitsValue ds = foldl (\<lambda>v c. 10 * v + digitValue c) 0 ds"

definition fixedPointValue :: "string \<Rightarrow> real" where
  "fixedPointValue t =
     (let u = unsignedText t;
          ip = takeWhile isDigit u;
          fp = tl (dropWhile isDigit u);
          v = real (digitsValue (ip @ fp)) / 10 ^ length fp
      in if t \<noteq> [] \<and> hd t = CHR ''-'' then - v else v)"

section \<open>binary64 arithmetic\<close>

text \<open>
  A JavaScript number is an IEEE 754 binary64 value. A finite one is a real number
  \<open>j * 2^e\<close> with \<open>\<bar>j\<bar> < 2^53\<close> and \<open>-1074 \<le> e \<le> 971\<close>. The result of \<open>+\<close>, \<open>-\<close>,
  \<open>*\<close> and \<open>/\<close> is the exact result rounded to the nearest such number, a tie going to
  the even \<open>j\<close>; a result that rounds to \<open>2^1024\<close> or beyond is an infinity.

  \<open>quantumExponent a 0\<close> scales \<open>a\<close> by powers of two until it lies between \<open>2^52\<close>
  and \<open>2^53\<close>, without going below the exponent of the subnormal numbers: it is the
  \<open>e\<close> of the numbers next to \<open>a\<close>.
\<close>

definition roundTiesToEven :: "real \<Rightarrow> int" where
  "roundTiesToEven q =
     (let f = \<lfloor>q\<rfloor>;
          r = q - of_int f
      in if r < 1 / 2 then f else if 1 / 2 < r then f + 1 else if even f then f else f + 1)"

definition twoTo :: "int \<Rightarrow> real" where
  "twoTo e = (if 0 \<le> e then 2 ^ nat e else 1 / 2 ^ nat (- e))"

function quantumExponent :: "real \<Rightarrow> int \<Rightarrow> int" where
  "quantumExponent a e =
     (if a < 2 ^ 52 \<and> - 1074 < e then quantumExponent (2 * a) (e - 1)
      else if 2 ^ 53 \<le> a \<and> e < 971 then quantumExponent (a / 2) (e + 1)
      else e)"
  by pat_completeness auto
termination
  by (relation "measure (\<lambda>(a, e).
        if a < 2 ^ 52 then nat (e + 1074) + 1
        else if 2 ^ 53 \<le> a then nat (971 - e) + 1 else 0)") auto

declare quantumExponent.simps [simp del]

definition binary64 :: "real \<Rightarrow> exn + real" where
  "binary64 x =
     (if x = 0 then Inr 0
      else
        let u = twoTo (quantumExponent \<bar>x\<bar> 0);
            r = of_int (roundTiesToEven (x / u)) * u
        in if 2 ^ 1024 \<le> \<bar>r\<bar> then Inl NotFinite else Inr r)"

definition double :: "real \<Rightarrow> real" where
  "double x = (case binary64 x of Inl e \<Rightarrow> 0 | Inr v \<Rightarrow> v)"

definition plus64 :: "real \<Rightarrow> real \<Rightarrow> exn + real" where
  "plus64 x y = binary64 (x + y)"

definition minus64 :: "real \<Rightarrow> real \<Rightarrow> exn + real" where
  "minus64 x y = binary64 (x - y)"

definition times64 :: "real \<Rightarrow> real \<Rightarrow> exn + real" where
  "times64 x y = binary64 (x * y)"

definition divide64 :: "real \<Rightarrow> real \<Rightarrow> exn + real" where
  "divide64 x y = (if y = 0 then Inl NotFinite else binary64 (x / y))"

definition addPoint64 :: "exn + totals \<Rightarrow> DataPoint \<Rightarrow> exn + totals" where
  "addPoint64 acc p =
     andThen acc (\<lambda>s.
     andThen (plus64 (sumX s) (area p)) (\<lambda>sumX'.
     andThen (plus64 (sumY s) (price p)) (\<lambda>sumY'.
     andThen (times64 (area p) (price p)) (\<lambda>xy.
     andThen (plus64 (sumXY s) xy) (\<lambda>sumXY'.
     andThen (times64 (area p) (area p)) (\<lambda>xx.
     andThen (plus64 (sumXX s) xx) (\<lambda>sumXX'.
     Inr \<lparr>sumX = sumX', sumY = sumY', sumXY = sumXY', sumXX = sumXX'\<rparr>)))))))"

text \<open>
  Lines 3 to 28 of \<open>calculateRegression\<close> once more, with every arithmetic operation
  rounded to binary64: the test on the length, the first \<open>forEach\<close>, the test on the
  denominator, and \<open>m\<close> and \<open>b\<close>. The rest of the function does not change \<open>m\<close> and \<open>b\<close>.
\<close>

datatype fittedLine = Vertical | FittedLine real real

definition fitLine64 :: "DataPoint list \<Rightarrow> exn + fittedLine" where
  "fitLine64 data =
     (let n = length data
      in if n < 2 then Inl (Error ''Insufficient data points'')
         else
           andThen (foldl addPoint64 (Inr \<lparr>sumX = 0, sumY = 0, sumXY = 0, sumXX = 0\<rparr>) data) (\<lambda>s.
           andThen (times64 (real n) (sumXX s)) (\<lambda>nXX.
           andThen (times64 (sumX s) (sumX s)) (\<lambda>xX.
           andThen (minus64 nXX xX) (\<lambda>denominator.
           if denominator = 0 then Inr Vertical
           else
             andThen (times64 (real n) (sumXY s)) (\<lambda>nXY.
             andThen (times64 (sumX s) (sumY s)) (\<lambda>xY.
             andThen (minus64 nXY xY) (\<lambda>numerator.
             andThen (divide64 numerator denominator) (\<lambda>m.
             andThen (times64 m (sumX s)) (\<lambda>mX.
             andThen (minus64 (sumY s) mX) (\<lambda>rest.
             andThen (divide64 rest (real n)) (\<lambda>b.
             Inr (FittedLine m b)))))))))))))"

section \<open>Sample observations\<close>

text \<open>The observation sequences that the specification names in its testable properties.\<close>

definition onTheLine :: "DataPoint list" where
  "onTheLine =
     [\<lparr>id' = ''p1'', area = 1, price = 5\<rparr>, \<lparr>id' = ''p2'', area = 2, price = 7\<rparr>,
      \<lparr>id' = ''p3'', area = 3, price = 9\<rparr>, \<lparr>id' = ''p4'', area = 4, price = 11\<rparr>]"




definition quoted :: "DataPoint list" where
  "quoted =
     [\<lparr>id' = ''q1'', area = 100, price = 6912 / 100\<rparr>,
      \<lparr>id' = ''q2'', area = 200, price = 8146 / 100\<rparr>]"

definition steep :: "DataPoint list" where
  "steep =
     [\<lparr>id' = ''s1'', area = 1, price = 10 ^ 21\<rparr>,
      \<lparr>id' = ''s2'', area = 2, price = 2 * 10 ^ 21\<rparr>]"


definition renamed :: "DataPoint list" where
  "renamed =
     [\<lparr>id' = ''x'', area = 1, price = 5\<rparr>, \<lparr>id' = '''', area = 2, price = 7\<rparr>,
      \<lparr>id' = ''x'', area = 3, price = 9\<rparr>, \<lparr>id' = ''1700000000000'', area = 4, price = 11\<rparr>]"



definition sameAreaHouses :: "DataPoint list" where
  "sameAreaHouses =
     [\<lparr>id' = ''h1'', area = double (457 / 10), price = 100\<rparr>,
      \<lparr>id' = ''h2'', area = double (457 / 10), price = 200\<rparr>,
      \<lparr>id' = ''h3'', area = double (457 / 10), price = 300\<rparr>]"

section \<open>The two loops as sums\<close>

lemma foldl_addPoint:
  "foldl addPoint s data =
     \<lparr>sumX = sumX s + sigma area data,
      sumY = sumY s + sigma price data,
      sumXY = sumXY s + sigma (\<lambda>p. area p * price p) data,
      sumXX = sumXX s + sigma (\<lambda>p. area p * area p) data\<rparr>"
  by (induction data arbitrary: s) (simp_all add: sigma_def addPoint_def)

lemma runningSums_sigma:
  "runningSums data =
     \<lparr>sumX = sigma area data,
      sumY = sigma price data,
      sumXY = sigma (\<lambda>p. area p * price p) data,
      sumXX = sigma (\<lambda>p. area p * area p) data\<rparr>"
  by (simp add: runningSums_def foldl_addPoint)

lemma foldl_addSquares:
  "foldl (addSquares k c my) q data =
     \<lparr>ssTot = ssTot q + sigma (\<lambda>p. (price p - my)\<^sup>2) data,
      ssRes = ssRes q + sigma (\<lambda>p. (price p - (k * area p + c))\<^sup>2) data\<rparr>"
  by (induction data arbitrary: q) (simp_all add: sigma_def addSquares_def Math_pow_def)

lemma runningSquares_sigma:
  "runningSquares k c my data =
     \<lparr>ssTot = sigma (\<lambda>p. (price p - my)\<^sup>2) data,
      ssRes = sigma (\<lambda>p. (price p - (k * area p + c))\<^sup>2) data\<rparr>"
  by (simp add: runningSquares_def foldl_addSquares)

lemma sigma_squares_nonneg: "0 \<le> sigma (\<lambda>p. (g p)\<^sup>2) data"
  unfolding sigma_def by (rule sum_list_nonneg) auto

lemma olsSsRes_nonneg: "0 \<le> olsSsRes data"
  unfolding olsSsRes_def by (rule sigma_squares_nonneg)


lemma denominator_runningSums:
  "real (length data) * sumXX (runningSums data) - sumX (runningSums data) * sumX (runningSums data)
     = olsDenominator data"
  by (simp add: runningSums_sigma olsDenominator_def power2_eq_square)

lemma toFixed_text: "f \<le> 100 \<Longrightarrow> toFixed x f = Inr (toFixedText x f)"
  by (simp add: toFixed_def)

lemma andThen_Inr: "andThen (Inr v) f = f v"
  by (simp add: andThen_def)

lemma calculateRegression_short:
  "length data < 2 \<Longrightarrow> calculateRegression data = Inl (Error ''Insufficient data points'')"
  by (simp add: calculateRegression_def)

lemma calculateRegression_vertical:
  assumes "2 \<le> length data" and "olsDenominator data = 0"
  shows "calculateRegression data =
           Inr \<lparr>m = 0, b = 0, r2 = 0, rmse = 0, equation = ''Undefined (Vertical Line)''\<rparr>"
  using assms unfolding calculateRegression_def Let_def denominator_runningSums by simp

lemma calculateRegression_fit:
  assumes "2 \<le> length data" and "olsDenominator data \<noteq> 0"
  shows "calculateRegression data =
           Inr \<lparr>m = olsSlope data, b = olsIntercept data, r2 = olsR2 data, rmse = olsRmse data,
                equation = ''y = '' @ toFixedText (olsSlope data) 4 @ ''x + ''
                             @ toFixedText (olsIntercept data) 2\<rparr>"
proof -
  have n: "real (length data) \<noteq> 0" using assms(1) by auto
  have len: "\<not> length data < 2" using assms(1) by simp
  have slope: "divide_number (real (length data) * sumXY (runningSums data)
                   - sumX (runningSums data) * sumY (runningSums data)) (olsDenominator data)
                = Inr (olsSlope data)"
    using assms(2) by (simp add: divide_number_def runningSums_sigma olsSlope_def)
  have icpt: "divide_number (sumY (runningSums data) - olsSlope data * sumX (runningSums data))
                  (real (length data)) = Inr (olsIntercept data)"
    using n by (simp add: divide_number_def runningSums_sigma olsIntercept_def)
  have mean: "divide_number (sumY (runningSums data)) (real (length data)) = Inr (olsMeanY data)"
    using n by (simp add: divide_number_def runningSums_sigma olsMeanY_def)
  have sq: "runningSquares (olsSlope data) (olsIntercept data) (olsMeanY data) data
              = \<lparr>ssTot = olsSsTot data, ssRes = olsSsRes data\<rparr>"
    by (simp add: runningSquares_sigma olsSsTot_def olsSsRes_def)
  let ?Q = "runningSquares (olsSlope data) (olsIntercept data) (olsMeanY data) data"
  have r2: "r2Of (ssTot ?Q) (ssRes ?Q) = Inr (olsR2 data)"
    by (simp add: sq r2Of_def olsR2_def divide_number_def andThen_def)
  have mse: "divide_number (ssRes ?Q) (real (length data))
               = Inr (olsSsRes data / real (length data))"
    using n by (simp add: sq divide_number_def)
  have root: "Math_sqrt (olsSsRes data / real (length data)) = Inr (olsRmse data)"
    using olsSsRes_nonneg [of data] by (simp add: Math_sqrt_def olsRmse_def not_less)
  show ?thesis
    unfolding calculateRegression_def Let_def denominator_runningSums
    by (simp add: len assms(2) slope icpt mean r2 mse root toFixed_text andThen_Inr)
qed

section \<open>When the denominator vanishes\<close>

lemma sigma_shifted_squares:
  "sigma (\<lambda>p. (f p - c)\<^sup>2) data =
     sigma (\<lambda>p. f p * f p) data - 2 * c * sigma f data + real (length data) * c\<^sup>2"
  by (induction data) (simp_all add: sigma_def power2_eq_square algebra_simps)

lemma sigma_squares_zero_iff:
  "sigma (\<lambda>p. (g p)\<^sup>2) data = 0 \<longleftrightarrow> (\<forall>p \<in> set data. g p = 0)"
proof -
  have "sum_list (map (\<lambda>p. (g p)\<^sup>2) data) = 0 \<longleftrightarrow> (\<forall>v \<in> set (map (\<lambda>p. (g p)\<^sup>2) data). v = 0)"
    by (rule sum_list_nonneg_eq_0_iff) auto
  then show ?thesis by (simp add: sigma_def)
qed

lemma sigma_constant:
  assumes "\<forall>p \<in> set data. f p = c"
  shows "sigma f data = real (length data) * c"
  using assms by (induction data) (simp_all add: sigma_def algebra_simps)

lemma spread_as_squares:
  assumes "data \<noteq> []"
  shows "real (length data) * sigma (\<lambda>p. f p * f p) data - (sigma f data)\<^sup>2 =
           real (length data) * sigma (\<lambda>p. (f p - sigma f data / real (length data))\<^sup>2) data"
proof -
  have n: "real (length data) \<noteq> 0" using assms by simp
  show ?thesis
    unfolding sigma_shifted_squares using n
    by (simp add: field_simps power2_eq_square)
qed

lemma all_equal_iff_mean:
  assumes "data \<noteq> []"
  shows "(\<forall>p \<in> set data. \<forall>q \<in> set data. f p = f q)
           \<longleftrightarrow> (\<forall>p \<in> set data. f p = sigma f data / real (length data))"
proof
  assume same: "\<forall>p \<in> set data. \<forall>q \<in> set data. f p = f q"
  have n: "real (length data) \<noteq> 0" using assms by simp
  from assms have "hd data \<in> set data" by simp
  with same have "\<forall>p \<in> set data. f p = f (hd data)" by blast
  then have "sigma f data = real (length data) * f (hd data)" by (rule sigma_constant)
  then have "sigma f data / real (length data) = f (hd data)" using n by simp
  with \<open>\<forall>p \<in> set data. f p = f (hd data)\<close>
  show "\<forall>p \<in> set data. f p = sigma f data / real (length data)" by simp
next
  assume "\<forall>p \<in> set data. f p = sigma f data / real (length data)"
  then show "\<forall>p \<in> set data. \<forall>q \<in> set data. f p = f q" by simp
qed

lemma olsDenominator_zero_iff:
  assumes "data \<noteq> []"
  shows "olsDenominator data = 0 \<longleftrightarrow> sameX data"
proof -
  have n: "real (length data) \<noteq> 0" using assms by simp
  have "olsDenominator data =
          real (length data) * sigma (\<lambda>p. (area p - sigma area data / real (length data))\<^sup>2) data"
    unfolding olsDenominator_def by (rule spread_as_squares [OF assms])
  then have "olsDenominator data = 0
               \<longleftrightarrow> (\<forall>p \<in> set data. area p = sigma area data / real (length data))"
    using n by (simp add: sigma_squares_zero_iff)
  then show ?thesis
    unfolding sameX_def using all_equal_iff_mean [OF assms, of area] by simp
qed



section \<open>Residuals against the mean baseline\<close>






section \<open>Points that lie on a line\<close>




section \<open>The result depends on sums over the observations only\<close>

lemma sigma_coordinates:
  "sigma (\<lambda>p. g (area p) (price p)) data
     = sum_list (map (\<lambda>(x, y). g x y) (zip (map area data) (map price data)))"
  by (induction data) (simp_all add: sigma_def)


lemma calculateRegression_cong:
  assumes len: "length d1 = length d2"
    and sums: "\<And>g. sigma (\<lambda>p. g (area p) (price p)) d1 = sigma (\<lambda>p. g (area p) (price p)) d2"
  shows "calculateRegression d1 = calculateRegression d2"
proof -
  have sx: "sigma area d1 = sigma area d2" using sums [of "\<lambda>x y. x"] by simp
  have sy: "sigma price d1 = sigma price d2" using sums [of "\<lambda>x y. y"] by simp
  have sxy: "sigma (\<lambda>p. area p * price p) d1 = sigma (\<lambda>p. area p * price p) d2"
    using sums [of "\<lambda>x y. x * y"] by simp
  have sxx: "sigma (\<lambda>p. area p * area p) d1 = sigma (\<lambda>p. area p * area p) d2"
    using sums [of "\<lambda>x y. x * x"] by simp
  have den: "olsDenominator d1 = olsDenominator d2"
    by (simp add: olsDenominator_def len sx sxx)
  have slope: "olsSlope d1 = olsSlope d2"
    by (simp add: olsSlope_def len sx sy sxy den)
  have icpt: "olsIntercept d1 = olsIntercept d2"
    by (simp add: olsIntercept_def len sx sy slope)
  have mean: "olsMeanY d1 = olsMeanY d2"
    by (simp add: olsMeanY_def len sy)
  have tot: "olsSsTot d1 = olsSsTot d2"
    unfolding olsSsTot_def mean using sums [of "\<lambda>x y. (y - olsMeanY d2)\<^sup>2"] by simp
  have res: "olsSsRes d1 = olsSsRes d2"
    unfolding olsSsRes_def slope icpt
    using sums [of "\<lambda>x y. (y - (olsSlope d2 * x + olsIntercept d2))\<^sup>2"] by simp
  have r2: "olsR2 d1 = olsR2 d2" by (simp add: olsR2_def tot res)
  have rmse: "olsRmse d1 = olsRmse d2" by (simp add: olsRmse_def len res)
  show ?thesis
  proof (cases "length d2 < 2")
    case True
    then show ?thesis using len by (simp add: calculateRegression_short)
  next
    case long: False
    then have l1: "2 \<le> length d1" and l2: "2 \<le> length d2" using len by simp_all
    show ?thesis
    proof (cases "olsDenominator d2 = 0")
      case True
      then show ?thesis
        using den calculateRegression_vertical [OF l1] calculateRegression_vertical [OF l2]
        by simp
    next
      case False
      then have "olsDenominator d1 \<noteq> 0" using den by simp
      then show ?thesis
        using False calculateRegression_fit [OF l1] calculateRegression_fit [OF l2]
        by (simp add: slope icpt r2 rmse)
    qed
  qed
qed

section \<open>The digits that toFixed writes\<close>

lemma isDigit_digitChar: "d < 10 \<Longrightarrow> isDigit (digitChar d)"
  unfolding isDigit_def digitChar_def
  by (simp add: less_Suc_eq numeral_eq_Suc) (elim disjE; simp)

lemma digitValue_digitChar: "d < 10 \<Longrightarrow> digitValue (digitChar d) = d"
  unfolding digitValue_def digitChar_def
  by (simp add: less_Suc_eq numeral_eq_Suc) (elim disjE; simp)

lemma decimalDigits_nonempty: "decimalDigits n \<noteq> []"
  by (subst decimalDigits.simps) simp

lemma decimalDigits_digits: "list_all isDigit (decimalDigits n)"
proof (induction n rule: decimalDigits.induct)
  case (1 n)
  show ?case
  proof (cases "n < 10")
    case True
    then show ?thesis by (subst decimalDigits.simps) (simp add: isDigit_digitChar)
  next
    case False
    then show ?thesis
      using "1.IH" by (subst decimalDigits.simps) (simp add: isDigit_digitChar)
  qed
qed

lemma digitsValue_snoc: "digitsValue (ds @ [c]) = 10 * digitsValue ds + digitValue c"
  by (simp add: digitsValue_def)

lemma digitsValue_decimalDigits: "digitsValue (decimalDigits n) = n"
proof (induction n rule: decimalDigits.induct)
  case (1 n)
  show ?case
  proof (cases "n < 10")
    case True
    then show ?thesis
      by (subst decimalDigits.simps) (simp add: digitsValue_def digitValue_digitChar)
  next
    case False
    then show ?thesis
      using "1.IH"
      by (subst decimalDigits.simps) (simp add: digitsValue_snoc digitValue_digitChar)
  qed
qed

lemma digitsValue_zeros: "digitsValue (replicate k (CHR ''0'') @ ds) = digitsValue ds"
proof (induction k)
  case 0
  show ?case by simp
next
  case (Suc k)
  have "foldl (\<lambda>v c. 10 * v + digitValue c) 0 (CHR ''0'' # xs)
          = foldl (\<lambda>v c. 10 * v + digitValue c) 0 xs" for xs
    by (simp add: digitValue_def)
  then show ?case using Suc by (simp add: digitsValue_def)
qed

lemma digit_not_minus: "isDigit c \<Longrightarrow> c \<noteq> CHR ''-''"
  by (auto simp add: isDigit_def)

lemma point_not_digit: "\<not> isDigit (CHR ''.'')"
  by (simp add: isDigit_def)

lemma takeWhile_digits:
  assumes "list_all isDigit ip"
  shows "takeWhile isDigit (ip @ CHR ''.'' # fp) = ip"
    and "dropWhile isDigit (ip @ CHR ''.'' # fp) = CHR ''.'' # fp"
  using assms point_not_digit by (induction ip) simp_all

lemma unsignedText_digits:
  assumes "ip \<noteq> []" and "list_all isDigit ip"
  shows "unsignedText (ip @ rest) = ip @ rest"
    and "unsignedText (CHR ''-'' # ip @ rest) = ip @ rest"
  using assms digit_not_minus by (cases ip; simp add: unsignedText_def)+

lemma fixed_point_shape:
  assumes "ip \<noteq> []" and "list_all isDigit ip" and "list_all isDigit fp"
  shows "fixedPointText (length fp) (ip @ ''.'' @ fp)"
    and "fixedPointText (length fp) (''-'' @ ip @ ''.'' @ fp)"
    and "fixedPointValue (ip @ ''.'' @ fp) = real (digitsValue (ip @ fp)) / 10 ^ length fp"
    and "fixedPointValue (''-'' @ ip @ ''.'' @ fp) = - (real (digitsValue (ip @ fp)) / 10 ^ length fp)"
proof -
  have u1: "unsignedText (ip @ ''.'' @ fp) = ip @ CHR ''.'' # fp"
    using unsignedText_digits(1) [OF assms(1,2)] by simp
  have u2: "unsignedText (''-'' @ ip @ ''.'' @ fp) = ip @ CHR ''.'' # fp"
    using unsignedText_digits(2) [OF assms(1,2)] by simp
  have hd1: "hd (ip @ ''.'' @ fp) \<noteq> CHR ''-''"
    using assms(1,2) digit_not_minus by (cases ip) simp_all
  show "fixedPointText (length fp) (ip @ ''.'' @ fp)"
    unfolding fixedPointText_def u1 Let_def takeWhile_digits [OF assms(2)]
    using assms by simp
  show "fixedPointText (length fp) (''-'' @ ip @ ''.'' @ fp)"
    unfolding fixedPointText_def u2 Let_def takeWhile_digits [OF assms(2)]
    using assms by simp
  show "fixedPointValue (ip @ ''.'' @ fp) = real (digitsValue (ip @ fp)) / 10 ^ length fp"
    unfolding fixedPointValue_def u1 Let_def takeWhile_digits [OF assms(2)]
    using hd1 by simp
  show "fixedPointValue (''-'' @ ip @ ''.'' @ fp)
          = - (real (digitsValue (ip @ fp)) / 10 ^ length fp)"
    unfolding fixedPointValue_def u2 Let_def takeWhile_digits [OF assms(2)]
    by simp
qed

text \<open>The digits that \<open>toFixed\<close> writes below \<open>10^21\<close>.\<close>

lemma toFixedText_digits:
  assumes small: "\<bar>x\<bar> < 10 ^ 21" and f: "0 < f"
  shows "\<exists>ip fp. toFixedText x f = (if x < 0 then ''-'' else []) @ ip @ ''.'' @ fp
           \<and> ip \<noteq> [] \<and> list_all isDigit ip \<and> list_all isDigit fp \<and> length fp = f
           \<and> digitsValue (ip @ fp) = nat \<lfloor>\<bar>x\<bar> * 10 ^ f + 1 / 2\<rfloor>"
proof -
  define n where "n = nat \<lfloor>\<bar>x\<bar> * 10 ^ f + 1 / 2\<rfloor>"
  define ds where "ds = decimalDigits n"
  define ds' where "ds' = (if length ds \<le> f then replicate (f + 1 - length ds) (CHR ''0'') @ ds else ds)"
  define k' where "k' = (if length ds \<le> f then f + 1 else length ds)"
  have len: "length ds' = k'" by (simp add: ds'_def k'_def)
  have k': "f < k'" by (simp add: k'_def)
  have zero: "isDigit (CHR ''0'')" by (simp add: isDigit_def)
  have digits: "list_all isDigit ds'"
    using decimalDigits_digits [of n] zero by (simp add: ds'_def ds_def list_all_iff)
  have val: "digitsValue ds' = n"
    by (simp add: ds'_def ds_def digitsValue_zeros digitsValue_decimalDigits)
  have abs: "(if x < 0 then - x else x) = \<bar>x\<bar>" by simp
  have shape: "toFixedText x f = (if x < 0 then ''-'' else []) @ take (k' - f) ds' @ ''.'' @ drop (k' - f) ds'"
    unfolding toFixedText_def Let_def abs
    using small f by (simp add: n_def ds_def ds'_def k'_def not_le)
  have "take (k' - f) ds' \<noteq> []" using len k' by auto
  moreover have "list_all isDigit (take (k' - f) ds')"
    using digits by (auto simp add: list_all_iff dest: in_set_takeD)
  moreover have "list_all isDigit (drop (k' - f) ds')"
    using digits by (auto simp add: list_all_iff dest: in_set_dropD)
  moreover have "length (drop (k' - f) ds') = f" using len k' by simp
  moreover have "digitsValue (take (k' - f) ds' @ drop (k' - f) ds') = n" using val by simp
  ultimately show ?thesis using shape unfolding n_def by blast
qed

lemma nearest_integer:
  fixes t :: real
  assumes "0 \<le> t"
  shows "\<bar>real (nat \<lfloor>t + 1 / 2\<rfloor>) - t\<bar> \<le> 1 / 2"
proof -
  have "0 \<le> \<lfloor>t + 1 / 2\<rfloor>" using assms by simp
  then have "real (nat \<lfloor>t + 1 / 2\<rfloor>) = of_int \<lfloor>t + 1 / 2\<rfloor>" by simp
  then show ?thesis by linarith
qed

lemma toFixedText_fixed_point:
  assumes small: "\<bar>x\<bar> < 10 ^ 21" and f: "0 < f"
  shows "fixedPointText f (toFixedText x f)"
    and "\<bar>fixedPointValue (toFixedText x f) - x\<bar> \<le> 1 / (2 * 10 ^ f)"
proof -
  obtain ip fp where shape: "toFixedText x f = (if x < 0 then ''-'' else []) @ ip @ ''.'' @ fp"
    and ip: "ip \<noteq> []" "list_all isDigit ip" and fp: "list_all isDigit fp" "length fp = f"
    and val: "digitsValue (ip @ fp) = nat \<lfloor>\<bar>x\<bar> * 10 ^ f + 1 / 2\<rfloor>"
    using toFixedText_digits [OF assms] by blast
  show "fixedPointText f (toFixedText x f)"
    using fixed_point_shape(1,2) [OF ip fp(1)] by (simp add: shape fp(2))
  have near: "\<bar>real (nat \<lfloor>\<bar>x\<bar> * 10 ^ f + 1 / 2\<rfloor>) - \<bar>x\<bar> * 10 ^ f\<bar> \<le> 1 / 2"
    by (rule nearest_integer) simp
  have scaled: "\<bar>real (nat \<lfloor>\<bar>x\<bar> * 10 ^ f + 1 / 2\<rfloor>) / 10 ^ f - \<bar>x\<bar>\<bar> \<le> 1 / (2 * 10 ^ f)"
  proof -
    have "\<bar>real (nat \<lfloor>\<bar>x\<bar> * 10 ^ f + 1 / 2\<rfloor>) / 10 ^ f - \<bar>x\<bar>\<bar>
            = \<bar>real (nat \<lfloor>\<bar>x\<bar> * 10 ^ f + 1 / 2\<rfloor>) - \<bar>x\<bar> * 10 ^ f\<bar> / 10 ^ f"
      by (simp add: field_simps abs_divide)
    also have "\<dots> \<le> (1 / 2) / 10 ^ f"
      by (rule divide_right_mono [OF near]) simp
    finally show ?thesis by simp
  qed
  show "\<bar>fixedPointValue (toFixedText x f) - x\<bar> \<le> 1 / (2 * 10 ^ f)"
  proof (cases "x < 0")
    case True
    then have "fixedPointValue (toFixedText x f)
                 = - (real (nat \<lfloor>\<bar>x\<bar> * 10 ^ f + 1 / 2\<rfloor>) / 10 ^ f)"
      using fixed_point_shape(4) [OF ip fp(1)] by (simp add: shape fp(2) val)
    then show ?thesis using scaled True by simp
  next
    case False
    then have "fixedPointValue (toFixedText x f)
                 = real (nat \<lfloor>\<bar>x\<bar> * 10 ^ f + 1 / 2\<rfloor>) / 10 ^ f"
      using fixed_point_shape(3) [OF ip fp(1)] by (simp add: shape fp(2) val)
    then show ?thesis using scaled False by simp
  qed
qed

section \<open>Evaluation on concrete observations\<close>

text \<open>
  The digits are evaluated first and on their own; the definitions of the program are then
  unfolded on the concrete observations.
\<close>

lemma decimalDigits_examples:
  "decimalDigits 0 = ''0''"
  "decimalDigits 21 = ''21''"
  "decimalDigits 300 = ''300''"
  "decimalDigits 1234 = ''1234''"
  "decimalDigits 5678 = ''5678''"
  "decimalDigits 20000 = ''20000''"
  "decimalDigits 20000000 = ''20000000''"
  "decimalDigits 1000000000000000000000 = ''1000000000000000000000''"
  by (simp_all add: decimalDigits.simps digitChar_def)

lemma exponentNotation_1e21: "exponentNotation 1000000000000000000000 = ''1e+21''"
proof -
  have len: "length ''1000000000000000000000'' - 1 = 21" by simp
  show ?thesis
    unfolding exponentNotation_def Let_def decimalDigits_examples len
    by (simp add: stripZeros_def)
qed

lemmas run_defs =
  calculateRegression_def runningSums_def runningSquares_def addSquares_def addPoint_def
  r2Of_def andThen_def divide_number_def Math_sqrt_def Math_pow_def toFixed_def toFixedText_def
  Let_def decimalDigits_examples exponentNotation_1e21

lemmas binary64_defs =
  fitLine64_def addPoint64_def plus64_def minus64_def times64_def divide64_def double_def
  binary64_def quantumExponent.simps twoTo_def roundTiesToEven_def andThen_def Let_def

lemma binary64_examples:
  "binary64 1 = Inr 1"
  "binary64 (1 / 10) = Inr (3602879701896397 / 2 ^ 55)"
  "binary64 (2 ^ 53 + 1) = Inr (2 ^ 53)"
  "binary64 (2 ^ 53 + 3) = Inr (2 ^ 53 + 4)"
  by (simp_all add: binary64_defs)

lemma double_areas:
  "double (457 / 10) = 3215851608919245 / 2 ^ 46"
  "double (602 / 10) = 4236198399495373 / 2 ^ 46"
  "double (801 / 10) = 2818268204315443 / 2 ^ 45"
  by (simp_all add: binary64_defs)



lemma fitLine64_sameAreaHouses:
  "fitLine64 sameAreaHouses = Inr (FittedLine 4 (4841369599423275 / 2 ^ 48))"
  by (simp add: sameAreaHouses_def binary64_defs)

section \<open>The claims\<close>









text \<open>
  C5. Only the test on the length makes \<open>calculateRegression\<close> fail. For at least two
  observations every path returns a result: the vertical-line result when the denominator
  is zero and the least-squares fit otherwise; no division by zero, square root of a
  negative number or \<open>RangeError\<close> is reached.
\<close>

theorem C5_only_the_length_guard_fails:
  "calculateRegression data =
     (if length data < 2 then Inl InsufficientData
      else if olsDenominator data = 0 then Inr verticalLine
      else Inr (olsFit data))"
  using calculateRegression_short [of data] calculateRegression_vertical [of data]
    calculateRegression_fit [of data]
  by (simp add: InsufficientData_def verticalLine_def olsFit_def not_less)





text \<open>
  C8. In a fit that succeeds and is not the vertical-line result, with slope and intercept
  below \<open>10^21\<close> in magnitude, the equation text is \<open>y = \<close>, the slope, \<open>x + \<close> and the
  intercept, where the slope is written in fixed-point notation with exactly 4 decimal
  places and the intercept with exactly 2, each text denoting the number rounded to that
  many places.
\<close>

theorem C8_equation_text_below_1e21:
  assumes "calculateRegression data = Inr res" and "\<not> sameX data"
    and "\<bar>m res\<bar> < 10 ^ 21" and "\<bar>b res\<bar> < 10 ^ 21"
  shows "equation res = ''y = '' @ toFixedText (m res) 4 @ ''x + '' @ toFixedText (b res) 2
         \<and> fixedPointText 4 (toFixedText (m res) 4)
         \<and> fixedPointText 2 (toFixedText (b res) 2)
         \<and> \<bar>fixedPointValue (toFixedText (m res) 4) - m res\<bar> \<le> 1 / (2 * 10 ^ 4)
         \<and> \<bar>fixedPointValue (toFixedText (b res) 2) - b res\<bar> \<le> 1 / (2 * 10 ^ 2)"
proof -
  have len: "2 \<le> length data"
  proof (rule ccontr)
    assume "\<not> 2 \<le> length data"
    then have "calculateRegression data = Inl (Error ''Insufficient data points'')"
      by (simp add: calculateRegression_short)
    with assms(1) show False by simp
  qed
  then have ne: "data \<noteq> []" by auto
  have nz: "olsDenominator data \<noteq> 0"
    using assms(2) olsDenominator_zero_iff [OF ne] by simp
  have res: "res = olsFit data"
    using assms(1) calculateRegression_fit [OF len nz] by (simp add: olsFit_def)
  have "equation res = ''y = '' @ toFixedText (m res) 4 @ ''x + '' @ toFixedText (b res) 2"
    by (simp add: res olsFit_def)
  moreover have "fixedPointText 4 (toFixedText (m res) 4)"
    by (rule toFixedText_fixed_point(1) [OF assms(3)]) simp
  moreover have "fixedPointText 2 (toFixedText (b res) 2)"
    by (rule toFixedText_fixed_point(1) [OF assms(4)]) simp
  moreover have "\<bar>fixedPointValue (toFixedText (m res) 4) - m res\<bar> \<le> 1 / (2 * 10 ^ 4)"
    by (rule toFixedText_fixed_point(2) [OF assms(3)]) simp
  moreover have "\<bar>fixedPointValue (toFixedText (b res) 2) - b res\<bar> \<le> 1 / (2 * 10 ^ 2)"
    by (rule toFixedText_fixed_point(2) [OF assms(4)]) simp
  ultimately show ?thesis by blast
qed

theorem C8_witness:
  "calculateRegression quoted
     = Inr \<lparr>m = 1234 / 10000, b = 5678 / 100, r2 = 1, rmse = 0,
            equation = ''y = 0.1234x + 56.78''\<rparr>
   \<and> \<not> sameX quoted
   \<and> fixedPointText 4 ''0.1234'' \<and> fixedPointText 2 ''56.78''
   \<and> fixedPointValue ''0.1234'' = 1234 / 10000 \<and> fixedPointValue ''56.78'' = 5678 / 100"
proof -
  let ?res = "\<lparr>m = 1234 / 10000, b = 5678 / 100, r2 = 1, rmse = 0,
                equation = ''y = 0.1234x + 56.78''\<rparr>"
  have run: "calculateRegression quoted = Inr ?res"
    by (simp add: quoted_def run_defs)
  have spread: "\<not> sameX quoted" by (simp add: quoted_def sameX_def)
  have slope: "toFixedText (1234 / 10000) 4 = ''0.1234''"
    unfolding toFixedText_def Let_def by (simp add: decimalDigits_examples)
  have icpt: "toFixedText (5678 / 100) 2 = ''56.78''"
    unfolding toFixedText_def Let_def by (simp add: decimalDigits_examples)
  have vals: "fixedPointValue ''0.1234'' = 1234 / 10000" "fixedPointValue ''56.78'' = 5678 / 100"
    by (simp_all add: fixedPointValue_def unsignedText_def isDigit_def digitsValue_def
        digitValue_def)
  have small: "\<bar>m ?res\<bar> < 10 ^ 21" "\<bar>b ?res\<bar> < 10 ^ 21" by simp_all
  note texts = C8_equation_text_below_1e21 [OF run spread small,
      unfolded RegressionResult.select_convs slope icpt]
  from texts run spread vals show ?thesis by blast
qed

text \<open>
  From \<open>10^21\<close> on \<open>toFixed\<close> writes exponent notation: a slope of \<open>10^21\<close> appears as
  \<open>1e+21\<close>, which is not a fixed-point text with 4 decimal places.
\<close>

theorem C8_exponent_notation_from_1e21:
  "calculateRegression steep
     = Inr \<lparr>m = 10 ^ 21, b = 0, r2 = 1, rmse = 0, equation = ''y = 1e+21x + 0.00''\<rparr>
   \<and> \<not> sameX steep
   \<and> \<not> fixedPointText 4 ''1e+21''"
  by (simp add: steep_def run_defs sameX_def fixedPointText_def unsignedText_def isDigit_def)

text \<open>
  C9. The result depends on the areas and prices only: two sequences that agree point by
  point on area and price give the same result, whatever their ids.
\<close>

theorem C9_id_is_never_read:
  assumes "map area d1 = map area d2" and "map price d1 = map price d2"
  shows "calculateRegression d1 = calculateRegression d2"
proof (rule calculateRegression_cong)
  show "length d1 = length d2" using assms(1) by (rule map_eq_imp_length_eq)
  show "sigma (\<lambda>p. g (area p) (price p)) d1 = sigma (\<lambda>p. g (area p) (price p)) d2" for g
    unfolding sigma_coordinates assms ..
qed

theorem C9_witness:
  "map area onTheLine = map area renamed \<and> map price onTheLine = map price renamed
   \<and> map id' onTheLine \<noteq> map id' renamed
   \<and> calculateRegression onTheLine = calculateRegression renamed"
proof -
  have x: "map area onTheLine = map area renamed" by (simp add: onTheLine_def renamed_def)
  have y: "map price onTheLine = map price renamed" by (simp add: onTheLine_def renamed_def)
  have i: "map id' onTheLine \<noteq> map id' renamed" by (simp add: onTheLine_def renamed_def)
  from C9_id_is_never_read [OF x y] x y i show ?thesis by blast
qed




end
